theory Spec2Isabelle
  imports
    Complex_Main
    "HOL-Library.Char_ord"
    "HOL-Library.List_Lexorder"
    "HOL-Library.Multiset"
begin

section \<open>Form identification (parse\_tax\_forms.py)\<close>

subsection \<open>The regular expressions of the registry\<close>

text \<open>
  Every pattern of \<^verbatim>\<open>ALL_FORM_PATTERNS\<close> is a sequence of three kinds of items:
  a literal character (compared case-insensitively, \<^verbatim>\<open>re.IGNORECASE\<close>), the item
  \<^verbatim>\<open>\s+\<close> (one or more whitespace characters) and the item \<^verbatim>\<open>\b\<close> (a word
  boundary). The regular expression engine is a library, not code of the repository; the
  matcher below gives the meaning of these three items on texts of ASCII characters.
  \<^verbatim>\<open>pattern.search(text)\<close> is truthy exactly when the pattern matches at some position.
\<close>

datatype re_item = Lit char | Whitespace1 | WordBoundary

definition to_lower :: "char \<Rightarrow> char" where
  "to_lower c =
     (if CHR ''A'' \<le> c \<and> c \<le> CHR ''Z'' then char_of (of_char c + (32::nat)) else c)"

definition is_space :: "char \<Rightarrow> bool" where
  "is_space c \<longleftrightarrow> (of_char c :: nat) \<in> {9, 10, 11, 12, 13, 28, 29, 30, 31, 32}"

definition is_word :: "char \<Rightarrow> bool" where
  "is_word c \<longleftrightarrow>
     (CHR ''a'' \<le> c \<and> c \<le> CHR ''z'') \<or> (CHR ''A'' \<le> c \<and> c \<le> CHR ''Z'')
     \<or> (CHR ''0'' \<le> c \<and> c \<le> CHR ''9'') \<or> c = CHR ''_''"

definition at_boundary :: "char option \<Rightarrow> string \<Rightarrow> bool" where
  "at_boundary prev s \<longleftrightarrow>
     (case prev of None \<Rightarrow> False | Some c \<Rightarrow> is_word c)
       \<noteq> (case s of [] \<Rightarrow> False | d # _ \<Rightarrow> is_word d)"

text \<open>
  \<open>match_here p prev s\<close>: the items \<open>p\<close> match a prefix of \<open>s\<close>, where \<open>prev\<close> is the
  character just before \<open>s\<close> in the text (none at the start of the text).
\<close>

fun match_here :: "re_item list \<Rightarrow> char option \<Rightarrow> string \<Rightarrow> bool" where
  "match_here [] prev s = True"
| "match_here (Lit c # p) prev [] = False"
| "match_here (Lit c # p) prev (d # s) = (to_lower d = to_lower c \<and> match_here p (Some d) s)"
| "match_here (Whitespace1 # p) prev [] = False"
| "match_here (Whitespace1 # p) prev (d # s) =
     (is_space d \<and> (match_here (Whitespace1 # p) (Some d) s \<or> match_here p (Some d) s))"
| "match_here (WordBoundary # p) prev s = (at_boundary prev s \<and> match_here p prev s)"

fun search_from :: "re_item list \<Rightarrow> char option \<Rightarrow> string \<Rightarrow> bool" where
  "search_from p prev [] = match_here p prev []"
| "search_from p prev (d # s) = (match_here p prev (d # s) \<or> search_from p (Some d) s)"

definition search :: "re_item list \<Rightarrow> string \<Rightarrow> bool" where
  "search p text = search_from p None text"

subsection \<open>The registry\<close>

text \<open>
  \<^verbatim>\<open>SCHEDULE\s+X\s+\(Form\s+1040\)\<close> and \<^verbatim>\<open>Form\s+N\b\<close>, the two shapes of the
  registry's patterns.
\<close>

definition schedule_pattern :: "string \<Rightarrow> re_item list" where
  "schedule_pattern x =
     map Lit ''SCHEDULE'' @ [Whitespace1] @ map Lit x @ [Whitespace1]
       @ map Lit ''(Form'' @ [Whitespace1] @ map Lit ''1040)''"

definition form_pattern :: "string \<Rightarrow> re_item list" where
  "form_pattern n = map Lit ''Form'' @ [Whitespace1] @ map Lit n @ [WordBoundary]"

definition ALL_FORM_PATTERNS :: "(re_item list \<times> string) list" where
  "ALL_FORM_PATTERNS =
    [(schedule_pattern ''1'', ''f1040s1''),
     (schedule_pattern ''2'', ''f1040s2''),
     (schedule_pattern ''3'', ''f1040s3''),
     (schedule_pattern ''A'', ''f1040sa''),
     (schedule_pattern ''B'', ''f1040sb''),
     (schedule_pattern ''C'', ''f1040sc''),
     (schedule_pattern ''D'', ''f1040sd''),
     (schedule_pattern ''E'', ''f1040se''),
     (schedule_pattern ''8812'', ''f1040s8812''),
     (form_pattern ''1040'', ''1040f''),
     (form_pattern ''8889'', ''f8889''),
     (form_pattern ''8879'', ''f8879''),
     (form_pattern ''1116'', ''f1116''),
     (form_pattern ''4952'', ''f4952''),
     (form_pattern ''8949'', ''f8949''),
     (form_pattern ''8995'', ''f8995''),
     (form_pattern ''8959'', ''f8959''),
     (form_pattern ''8960'', ''f8960''),
     (form_pattern ''8582'', ''f8582''),
     (form_pattern ''8863'', ''f8863''),
     (form_pattern ''8812'', ''f8812''),
     (form_pattern ''2441'', ''f2441'')]"

subsection \<open>identify\_form\_on\_page\<close>

text \<open>
  A page is given by the text of its top-left clip region, which is all the function reads
  of it. The loop over the registry's items, in insertion order, returns at the first
  pattern whose search succeeds. \<open>first_match\<close> is that loop for any matcher and any
  registry; \<open>identify_form_on_page\<close> runs it on the registry of the module.
\<close>

fun first_match :: "('p \<Rightarrow> string \<Rightarrow> bool) \<Rightarrow> ('p \<times> 'l) list \<Rightarrow> string \<Rightarrow> 'l option" where
  "first_match srch [] text = None"
| "first_match srch ((pattern, doc_type) # rest) text =
     (if srch pattern text then Some doc_type else first_match srch rest text)"

definition identify_form_on_page :: "string \<Rightarrow> string option" where
  "identify_form_on_page text = first_match search ALL_FORM_PATTERNS text"

subsection \<open>find\_tax\_forms\_in\_pdf\<close>

text \<open>
  A finished form is the dictionary with the keys \<^verbatim>\<open>document_type\<close>, \<^verbatim>\<open>start_page\<close>
  and \<^verbatim>\<open>end_page\<close>. The form being tracked (\<^verbatim>\<open>current_form\<close>) is the same dictionary
  before \<^verbatim>\<open>end_page\<close> is stored in it. Page numbers are Python integers.
\<close>

record segment =
  document_type :: string
  start_page :: int
  end_page :: int

record tracked_form =
  tracked_type :: string
  tracked_start :: int

definition set_end_page :: "tracked_form \<Rightarrow> int \<Rightarrow> segment" where
  "set_end_page current_form e =
     \<lparr>document_type = tracked_type current_form,
      start_page = tracked_start current_form,
      end_page = e\<rparr>"

text \<open>
  \<^verbatim>\<open>fitz.open\<close> either raises, with a reason, or gives the document: the list of its pages,
  each page standing for the text of its clip region.
\<close>

datatype fitz_document = OpenFailed string | Document "string list"

text \<open>What the program prints: one constructor for each print call, holding the values
  interpolated in its message.\<close>

datatype message =
    CouldNotOpen string string
  | NoTaxForms
  | NoPdfFiles string
  | FoundPdfFiles nat
  | NoGroundTruth string

type_synonym scan_state = "segment list \<times> tracked_form option"

text \<open>
  One iteration of the loop over \<^verbatim>\<open>range(len(doc))\<close>. The test \<^verbatim>\<open>if form_type:\<close> is
  Python truthiness: it fails for \<^verbatim>\<open>None\<close> and for the empty string.
\<close>

definition page_step :: "int \<Rightarrow> string \<Rightarrow> scan_state \<Rightarrow> scan_state" where
  "page_step page_num page st =
     (let (found_forms, current_form) = st;
          human_page_num = page_num + 1
      in case identify_form_on_page page of
           None \<Rightarrow> (found_forms, current_form)
         | Some form_type \<Rightarrow>
             if form_type = [] then (found_forms, current_form)
             else (case current_form of
                     None \<Rightarrow>
                       (found_forms,
                        Some \<lparr>tracked_type = form_type, tracked_start = human_page_num\<rparr>)
                   | Some cur \<Rightarrow>
                       if form_type \<noteq> tracked_type cur
                       then (found_forms @ [set_end_page cur (human_page_num - 1)],
                             Some \<lparr>tracked_type = form_type, tracked_start = human_page_num\<rparr>)
                       else (found_forms, Some cur)))"

fun scan_pages :: "int \<Rightarrow> string list \<Rightarrow> scan_state \<Rightarrow> scan_state" where
  "scan_pages page_num [] st = st"
| "scan_pages page_num (page # pages) st =
     scan_pages (page_num + 1) pages (page_step page_num page st)"

definition finish :: "nat \<Rightarrow> scan_state \<Rightarrow> segment list" where
  "finish len_doc st =
     (case snd st of
        None \<Rightarrow> fst st
      | Some cur \<Rightarrow> fst st @ [set_end_page cur (int len_doc)])"

definition find_tax_forms_in_pdf :: "string \<Rightarrow> fitz_document \<Rightarrow> message list \<times> segment list" where
  "find_tax_forms_in_pdf pdf_path opened =
     (case opened of
        OpenFailed e \<Rightarrow> ([CouldNotOpen pdf_path e], [])
      | Document doc \<Rightarrow> ([], finish (length doc) (scan_pages 0 doc ([], None))))"

subsection \<open>main (single document)\<close>

definition desired_forms :: "string set" where
  "desired_forms =
     {''f1040s1'', ''f1040s3'', ''f1040sa'',
      ''f1040sb'', ''f1040sc'', ''f1040sd'', ''f1040se'',
      ''1040f'', ''f8889'', ''f8949''}"

text \<open>The result is what \<^verbatim>\<open>main\<close> returns: \<open>None\<close> for Python's \<^verbatim>\<open>None\<close> (the bare
  \<^verbatim>\<open>return\<close>), otherwise the filtered list.\<close>

definition main :: "string \<Rightarrow> fitz_document \<Rightarrow> message list \<times> segment list option" where
  "main pdf_file_path opened =
     (let (out, all_identified_forms) = find_tax_forms_in_pdf pdf_file_path opened
      in if all_identified_forms = [] then (out @ [NoTaxForms], None)
         else (out,
               Some (filter (\<lambda>form. document_type form \<in> desired_forms) all_identified_forms)))"

section \<open>Scoring (evaluate.py)\<close>

subsection \<open>Dictionaries compared as sorted tuples of items\<close>

text \<open>
  The scorer receives lists of dictionaries: the parser's forms and the objects of the
  ground-truth JSON file. A dictionary is the list of its items in insertion order, with
  distinct keys; the values that occur are strings and integers.
\<close>

datatype pyval = VStr string | VInt int

type_synonym pydict = "(string \<times> pyval) list"

text \<open>The dictionary \<^verbatim>\<open>find_tax_forms_in_pdf\<close> builds for a form: \<^verbatim>\<open>document_type\<close> and
  \<^verbatim>\<open>start_page\<close> at creation, \<^verbatim>\<open>end_page\<close> stored when the form is closed.\<close>

definition segment_dict :: "segment \<Rightarrow> pydict" where
  "segment_dict form =
     [(''document_type'', VStr (document_type form)),
      (''start_page'', VInt (start_page form)),
      (''end_page'', VInt (end_page form))]"

text \<open>
  \<^verbatim>\<open>tuple(sorted(p.items()))\<close>. Python compares the (key, value) tuples by their first
  components and looks at the values only between equal keys, which a dictionary does not
  have: the items are sorted by key, strings being ordered lexicographically by character
  code.
\<close>

definition sorted_items :: "pydict \<Rightarrow> pydict" where
  "sorted_items p = sort_key fst p"

record metrics =
  tp :: int
  fp :: int
  fn :: int

definition calculate_metrics_for_file :: "pydict list \<Rightarrow> pydict list \<Rightarrow> metrics" where
  "calculate_metrics_for_file predicted ground_truth =
     (let predicted_set = set (map sorted_items predicted);
          truth_set = set (map sorted_items ground_truth);
          true_positives = int (card (predicted_set \<inter> truth_set));
          false_positives = int (card (predicted_set - truth_set));
          false_negatives = int (card (truth_set - predicted_set))
      in \<lparr>tp = true_positives, fp = false_positives, fn = false_negatives\<rparr>)"

subsection \<open>Overall metrics\<close>

text \<open>
  Python's division raises \<^verbatim>\<open>ZeroDivisionError\<close> on a zero divisor, for integers and for
  floats. The floating-point numbers of the program are taken as the exact rationals they
  approximate. \<^verbatim>\<open>round(x, 4)\<close> goes to the closest multiple of \<open>10\<^sup>-\<^sup>4\<close>, and to the even
  one of two equally close.
\<close>

datatype error = ZeroDivisionError

definition truediv :: "rat \<Rightarrow> rat \<Rightarrow> error + rat" where
  "truediv a b = (if b = 0 then Inl ZeroDivisionError else Inr (a / b))"

definition round_half_even :: "rat \<Rightarrow> int" where
  "round_half_even y =
     (let f = \<lfloor>y\<rfloor>; d = y - of_int f
      in if d < 1 / 2 then f
         else if 1 / 2 < d then f + 1
         else if even f then f else f + 1)"

definition py_round :: "rat \<Rightarrow> nat \<Rightarrow> rat" where
  "py_round x ndigits = of_int (round_half_even (x * 10 ^ ndigits)) / 10 ^ ndigits"

record overall_metrics =
  total_true_positives :: int
  total_false_positives :: int
  total_false_negatives :: int
  precision :: rat
  recall :: rat
  f1_score :: rat

text \<open>Lines 100 to 113 of \<^verbatim>\<open>evaluate_parser_accuracy\<close>: the three guarded quotients and the
  dictionary of the overall metrics.\<close>

definition overall_of_totals :: "int \<Rightarrow> int \<Rightarrow> int \<Rightarrow> error + overall_metrics" where
  "overall_of_totals total_tp total_fp total_fn =
     (case (if total_tp + total_fp > 0
            then truediv (of_int total_tp) (of_int (total_tp + total_fp)) else Inr 0) of
        Inl e \<Rightarrow> Inl e
      | Inr p \<Rightarrow>
     (case (if total_tp + total_fn > 0
            then truediv (of_int total_tp) (of_int (total_tp + total_fn)) else Inr 0) of
        Inl e \<Rightarrow> Inl e
      | Inr r \<Rightarrow>
     (case (if p + r > 0 then truediv (2 * (p * r)) (p + r) else Inr 0) of
        Inl e \<Rightarrow> Inl e
      | Inr f1 \<Rightarrow>
          Inr \<lparr>total_true_positives = total_tp,
               total_false_positives = total_fp,
               total_false_negatives = total_fn,
               precision = py_round p 4,
               recall = py_round r 4,
               f1_score = py_round f1 4\<rparr>)))"

subsection \<open>evaluate\_parser\_accuracy\<close>

text \<open>
  The directory listing and the files are the input: \<open>pdf_files\<close> is the list of the PDF
  files of \<^verbatim>\<open>pdf_dir\<close> in the order \<^verbatim>\<open>os.listdir\<close> gives them, each with its name, what
  \<^verbatim>\<open>fitz.open\<close> does on it, and the content of the JSON file of the same base name in
  \<^verbatim>\<open>ground_truth_dir\<close> (\<open>None\<close> when that file does not exist).
\<close>

record corpus_file =
  pdf_filename :: string
  pdf :: fitz_document
  ground_truth_json :: "pydict list option"

record eval_state =
  total_tp :: int
  total_fp :: int
  total_fn :: int
  per_file_results :: "string \<rightharpoonup> metrics"
  printed :: "message list"

definition path_join :: "string \<Rightarrow> string \<Rightarrow> string" where
  "path_join dir name =
     (if dir = [] \<or> last dir = CHR ''/'' then dir @ name else dir @ ''/'' @ name)"

text \<open>One iteration of the loop over \<^verbatim>\<open>pdf_files\<close>; the first case is the
  \<^verbatim>\<open>continue\<close> taken when the ground-truth file is missing. The set of desired forms
  written here in the source is the same set as in \<^verbatim>\<open>parse_tax_forms.main\<close>.\<close>

definition file_step :: "string \<Rightarrow> corpus_file \<Rightarrow> eval_state \<Rightarrow> eval_state" where
  "file_step pdf_dir file st =
     (case ground_truth_json file of
        None \<Rightarrow> st\<lparr>printed := printed st @ [NoGroundTruth (pdf_filename file)]\<rparr>
      | Some ground_truth_forms \<Rightarrow>
          (let pdf_path = path_join pdf_dir (pdf_filename file);
               (out, predicted_forms) = find_tax_forms_in_pdf pdf_path (pdf file);
               predicted_forms_filtered =
                 filter (\<lambda>form. document_type form \<in> desired_forms) predicted_forms;
               file_metrics =
                 calculate_metrics_for_file
                   (map segment_dict predicted_forms_filtered) ground_truth_forms
           in \<lparr>total_tp = total_tp st + tp file_metrics,
               total_fp = total_fp st + fp file_metrics,
               total_fn = total_fn st + fn file_metrics,
               per_file_results = (per_file_results st)(pdf_filename file \<mapsto> file_metrics),
               printed = printed st @ out\<rparr>))"

fun evaluate_files :: "string \<Rightarrow> corpus_file list \<Rightarrow> eval_state \<Rightarrow> eval_state" where
  "evaluate_files pdf_dir [] st = st"
| "evaluate_files pdf_dir (file # files) st =
     evaluate_files pdf_dir files (file_step pdf_dir file st)"

record report =
  overall :: overall_metrics
  per_file :: "string \<rightharpoonup> metrics"

text \<open>The result is \<open>Inr None\<close> for the empty dictionary returned when there is no PDF
  file, \<open>Inl\<close> for an exception.\<close>

definition evaluate_parser_accuracy ::
  "string \<Rightarrow> corpus_file list \<Rightarrow> message list \<times> (error + report option)" where
  "evaluate_parser_accuracy pdf_dir pdf_files =
     (if pdf_files = [] then ([NoPdfFiles pdf_dir], Inr None)
      else
        (let st = evaluate_files pdf_dir pdf_files
                    \<lparr>total_tp = 0, total_fp = 0, total_fn = 0,
                     per_file_results = Map.empty,
                     printed = [FoundPdfFiles (length pdf_files)]\<rparr>
         in (printed st,
             case overall_of_totals (total_tp st) (total_fp st) (total_fn st) of
               Inl e \<Rightarrow> Inl e
             | Inr m \<Rightarrow> Inr (Some \<lparr>overall = m, per_file = per_file_results st\<rparr>))))"

section \<open>Notions used in the statements\<close>

text \<open>The \<open>k\<close>-th pattern of the registry, counted from 0 in insertion order, matches the
  text; and the label registered with it.\<close>

definition pattern_matches :: "nat \<Rightarrow> string \<Rightarrow> bool" where
  "pattern_matches k text \<longleftrightarrow>
     k < length ALL_FORM_PATTERNS \<and> search (fst (ALL_FORM_PATTERNS ! k)) text"

definition label_at :: "nat \<Rightarrow> string" where
  "label_at k = snd (ALL_FORM_PATTERNS ! k)"

text \<open>The pages a form covers.\<close>

definition pages_of :: "segment \<Rightarrow> int set" where
  "pages_of form = {start_page form .. end_page form}"

text \<open>
  The invariant of the loop of \<^verbatim>\<open>find_tax_forms_in_pdf\<close> before the page of index \<open>n\<close>:
  the closed forms end at page \<open>n\<close> at the latest, each ends before the next starts, and
  the tracked form starts after all of them, at page \<open>n\<close> at the latest.
\<close>

definition scan_inv :: "int \<Rightarrow> scan_state \<Rightarrow> bool" where
  "scan_inv n st \<longleftrightarrow>
     (\<forall>s \<in> set (fst st). start_page s \<le> end_page s \<and> end_page s \<le> n)
     \<and> sorted_wrt (\<lambda>a b. end_page a < start_page b) (fst st)
     \<and> (case snd st of
          None \<Rightarrow> True
        | Some cur \<Rightarrow>
            tracked_start cur \<le> n \<and> (\<forall>s \<in> set (fst st). end_page s < tracked_start cur))"

text \<open>
  A dictionary has the items of the form \<open>form\<close>, in any insertion order: the three keys
  with the three values of the form.
\<close>

definition same_items :: "pydict \<Rightarrow> segment \<Rightarrow> bool" where
  "same_items d form \<longleftrightarrow> mset d = mset (segment_dict form)"

text \<open>The items of a form in the order of their keys.\<close>

definition canonical :: "segment \<Rightarrow> pydict" where
  "canonical form =
     [(''document_type'', VStr (document_type form)),
      (''end_page'', VInt (end_page form)),
      (''start_page'', VInt (start_page form))]"

text \<open>
  Steps 2 and 4 of the loop body of \<^verbatim>\<open>evaluate_parser_accuracy\<close>: the metrics of one
  file from the forms the parser found and the ground truth. \<open>document_metrics\<close> is what a
  file of the corpus adds to the totals, \<open>None\<close> when it is skipped for want of ground truth.
\<close>

definition score_file :: "segment list \<Rightarrow> pydict list \<Rightarrow> metrics" where
  "score_file predicted_forms ground_truth_forms =
     calculate_metrics_for_file
       (map segment_dict
          (filter (\<lambda>form. document_type form \<in> desired_forms) predicted_forms))
       ground_truth_forms"

definition document_metrics :: "string \<Rightarrow> corpus_file \<Rightarrow> metrics option" where
  "document_metrics pdf_dir file =
     (case ground_truth_json file of
        None \<Rightarrow> None
      | Some ground_truth_forms \<Rightarrow>
          Some (score_file
                  (snd (find_tax_forms_in_pdf
                          (path_join pdf_dir (pdf_filename file)) (pdf file)))
                  ground_truth_forms))"

definition contributed :: "(metrics \<Rightarrow> int) \<Rightarrow> string \<Rightarrow> corpus_file \<Rightarrow> int" where
  "contributed field pdf_dir file =
     (case document_metrics pdf_dir file of None \<Rightarrow> 0 | Some m \<Rightarrow> field m)"

definition corpus_sum :: "(metrics \<Rightarrow> int) \<Rightarrow> string \<Rightarrow> corpus_file list \<Rightarrow> int" where
  "corpus_sum field pdf_dir pdf_files = sum_list (map (contributed field pdf_dir) pdf_files)"

text \<open>
  The micro-averaged metrics as the specification words them: a quotient is 0 when its
  denominator is 0; precision, recall and F1 from the totals, rounded to 4 places.
\<close>

definition quotient :: "rat \<Rightarrow> rat \<Rightarrow> rat" where
  "quotient a b = (if b = 0 then 0 else a / b)"

definition micro_average :: "int \<Rightarrow> int \<Rightarrow> int \<Rightarrow> overall_metrics" where
  "micro_average t_p f_p f_n =
     (let p = quotient (of_int t_p) (of_int (t_p + f_p));
          r = quotient (of_int t_p) (of_int (t_p + f_n));
          f1 = quotient (2 * p * r) (p + r)
      in \<lparr>total_true_positives = t_p,
          total_false_positives = f_p,
          total_false_negatives = f_n,
          precision = py_round p 4,
          recall = py_round r 4,
          f1_score = py_round f1 4\<rparr>)"

text \<open>The overall metrics in the result of \<^verbatim>\<open>evaluate_parser_accuracy\<close>.\<close>

definition corpus_overall ::
  "string \<Rightarrow> corpus_file list \<Rightarrow> error + overall_metrics option" where
  "corpus_overall pdf_dir pdf_files =
     map_sum id (map_option overall) (snd (evaluate_parser_accuracy pdf_dir pdf_files))"

section \<open>The first matching pattern wins\<close>

lemma first_match_find:
  "first_match srch reg text =
     map_option snd (List.find (\<lambda>entry. srch (fst entry) text) reg)"
  by (induction reg) auto

lemma first_match_None:
  "first_match srch reg text = None \<longleftrightarrow> (\<forall>k<length reg. \<not> srch (fst (reg ! k)) text)"
proof -
  have "first_match srch reg text = None \<longleftrightarrow> (\<forall>entry \<in> set reg. \<not> srch (fst entry) text)"
    by (force simp: first_match_find find_None_iff)
  then show ?thesis by (simp add: all_set_conv_all_nth)
qed

lemma first_match_Some:
  "first_match srch reg text = Some l \<longleftrightarrow>
     (\<exists>k<length reg. srch (fst (reg ! k)) text
        \<and> (\<forall>m<k. \<not> srch (fst (reg ! m)) text) \<and> l = snd (reg ! k))"
proof -
  have "first_match srch reg text = Some l \<longleftrightarrow>
     (\<exists>entry. List.find (\<lambda>entry. srch (fst entry) text) reg = Some entry \<and> l = snd entry)"
    by (auto simp: first_match_find)
  also have "\<dots> \<longleftrightarrow> (\<exists>k<length reg. srch (fst (reg ! k)) text
        \<and> (\<forall>m<k. \<not> srch (fst (reg ! m)) text) \<and> l = snd (reg ! k))"
    unfolding find_Some_iff by blast
  finally show ?thesis .
qed

lemma identify_at_first_matching:
  assumes "pattern_matches k text" and "\<forall>m<k. \<not> pattern_matches m text"
  shows "identify_form_on_page text = Some (label_at k)"
proof -
  have "k < length ALL_FORM_PATTERNS" "search (fst (ALL_FORM_PATTERNS ! k)) text"
    "\<forall>m<k. \<not> search (fst (ALL_FORM_PATTERNS ! m)) text"
    using assms by (auto simp: pattern_matches_def)
  then show ?thesis
    unfolding identify_form_on_page_def label_at_def first_match_Some by blast
qed

text \<open>
  Claim C1. identify\_form\_on\_page scans the registry in insertion order and returns the
  label of the first pattern that matches the text of the page region: when pattern \<open>k\<close>
  matches and no pattern before it does, the result is the label of pattern \<open>k\<close>, whatever
  the later patterns do; when two patterns \<open>i < j\<close> match, the result is the label of a
  matching pattern at position \<open>i\<close> or before it, the first one that matches; and the
  result is None exactly when no pattern matches.
\<close>

theorem identify_form_on_page_first_match:
  "(pattern_matches k text \<and> (\<forall>m<k. \<not> pattern_matches m text)
      \<longrightarrow> identify_form_on_page text = Some (label_at k))
   \<and> (pattern_matches i text \<and> pattern_matches j text \<and> i < j
      \<longrightarrow> (\<exists>k\<le>i. pattern_matches k text \<and> (\<forall>m<k. \<not> pattern_matches m text)
              \<and> identify_form_on_page text = Some (label_at k)))
   \<and> (identify_form_on_page text = None \<longleftrightarrow> (\<forall>k. \<not> pattern_matches k text))"
proof (intro conjI impI)
  assume "pattern_matches k text \<and> (\<forall>m<k. \<not> pattern_matches m text)"
  then show "identify_form_on_page text = Some (label_at k)"
    using identify_at_first_matching by blast
next
  assume h: "pattern_matches i text \<and> pattern_matches j text \<and> i < j"
  define k where "k = (LEAST m. pattern_matches m text)"
  have km: "pattern_matches k text"
    unfolding k_def using h by (metis LeastI)
  have kle: "k \<le> i"
    unfolding k_def using h by (simp add: Least_le)
  have kmin: "\<forall>m<k. \<not> pattern_matches m text"
    unfolding k_def using not_less_Least by blast
  from identify_at_first_matching[OF km kmin] km kle kmin
  show "\<exists>k\<le>i. pattern_matches k text \<and> (\<forall>m<k. \<not> pattern_matches m text)
              \<and> identify_form_on_page text = Some (label_at k)"
    by blast
next
  show "identify_form_on_page text = None \<longleftrightarrow> (\<forall>k. \<not> pattern_matches k text)"
    unfolding identify_form_on_page_def first_match_None pattern_matches_def by blast
qed

text \<open>
  The text \<^verbatim>\<open>SCHEDULE C (Form 1040)\<close> matches the pattern of Schedule C (position 5) and
  the pattern of Form 1040 (position 9), and no pattern before position 5: the label is
  that of Schedule C.
\<close>

theorem identify_form_on_page_first_match_witness:
  "pattern_matches 5 ''SCHEDULE C (Form 1040)''
   \<and> \<not> pattern_matches 0 ''SCHEDULE C (Form 1040)''
   \<and> \<not> pattern_matches 1 ''SCHEDULE C (Form 1040)''
   \<and> \<not> pattern_matches 2 ''SCHEDULE C (Form 1040)''
   \<and> \<not> pattern_matches 3 ''SCHEDULE C (Form 1040)''
   \<and> \<not> pattern_matches 4 ''SCHEDULE C (Form 1040)''
   \<and> pattern_matches 9 ''SCHEDULE C (Form 1040)''
   \<and> (5::nat) < 9
   \<and> label_at 5 = ''f1040sc''
   \<and> identify_form_on_page ''SCHEDULE C (Form 1040)'' = Some ''f1040sc''
   \<and> (\<forall>k. \<not> pattern_matches k ''Page 2'')
   \<and> identify_form_on_page ''Page 2'' = None"
proof -
  have m5: "pattern_matches 5 ''SCHEDULE C (Form 1040)''"
    unfolding pattern_matches_def by code_simp
  have m9: "pattern_matches 9 ''SCHEDULE C (Form 1040)''"
    unfolding pattern_matches_def by code_simp
  have "\<forall>m \<in> set [0..<5]. \<not> pattern_matches m ''SCHEDULE C (Form 1040)''"
    unfolding pattern_matches_def by code_simp
  then have before: "\<forall>m<5. \<not> pattern_matches m ''SCHEDULE C (Form 1040)''"
    by simp
  have l5: "label_at 5 = ''f1040sc''"
    unfolding label_at_def by code_simp
  have "\<forall>k \<in> set [0..<length ALL_FORM_PATTERNS]. \<not> pattern_matches k ''Page 2''"
    unfolding pattern_matches_def by code_simp
  then have none: "\<forall>k. \<not> pattern_matches k ''Page 2''"
    by (auto simp: pattern_matches_def)
  from identify_form_on_page_first_match[of 5 "''SCHEDULE C (Form 1040)''" 5 9] m5 before l5
  have r1: "identify_form_on_page ''SCHEDULE C (Form 1040)'' = Some ''f1040sc''"
    by simp
  from identify_form_on_page_first_match[of 0 "''Page 2''" 0 0] none
  have r2: "identify_form_on_page ''Page 2'' = None"
    by blast
  from m5 m9 before l5 none r1 r2 show ?thesis by simp
qed

section \<open>Building the segments\<close>

lemma registry_labels_nonempty: "\<forall>entry \<in> set ALL_FORM_PATTERNS. snd entry \<noteq> []"
  by (simp add: ALL_FORM_PATTERNS_def)

lemma identify_nonempty:
  assumes "identify_form_on_page page = Some form_type"
  shows "form_type \<noteq> []"
proof -
  from assms obtain k where
    "k < length ALL_FORM_PATTERNS" "form_type = snd (ALL_FORM_PATTERNS ! k)"
    unfolding identify_form_on_page_def first_match_Some by blast
  then show ?thesis
    using registry_labels_nonempty by (metis nth_mem)
qed

lemma page_step_None:
  "identify_form_on_page page = None \<Longrightarrow> page_step page_num page st = st"
  by (simp add: page_step_def split: prod.splits)

lemma page_step_first:
  "identify_form_on_page page = Some form_type \<Longrightarrow>
   page_step page_num page (found_forms, None) =
     (found_forms, Some \<lparr>tracked_type = form_type, tracked_start = page_num + 1\<rparr>)"
  using identify_nonempty[of page form_type] by (simp add: page_step_def Let_def)

lemma page_step_same:
  "identify_form_on_page page = Some (tracked_type cur) \<Longrightarrow>
   page_step page_num page (found_forms, Some cur) = (found_forms, Some cur)"
  by (simp add: page_step_def Let_def)

lemma page_step_other:
  "identify_form_on_page page = Some form_type \<Longrightarrow> form_type \<noteq> tracked_type cur \<Longrightarrow>
   page_step page_num page (found_forms, Some cur) =
     (found_forms @ [set_end_page cur ((page_num + 1) - 1)],
      Some \<lparr>tracked_type = form_type, tracked_start = page_num + 1\<rparr>)"
  using identify_nonempty[of page form_type] by (simp add: page_step_def Let_def)

text \<open>
  Claim C3. A page with no label leaves the state of the loop as it is, so it does not
  close or split the form being tracked: pages labelled A, A, None, A give the one form
  A from page 1 to page 4.
\<close>

theorem unlabeled_page_keeps_open_form:
  "(identify_form_on_page page = None
      \<longrightarrow> page_step page_num page (found_forms, Some cur) = (found_forms, Some cur))
   \<and> (identify_form_on_page p1 = Some A \<and> identify_form_on_page p2 = Some A
      \<and> identify_form_on_page p3 = None \<and> identify_form_on_page p4 = Some A
      \<longrightarrow> snd (find_tax_forms_in_pdf pdf_path (Document [p1, p2, p3, p4])) =
            [\<lparr>document_type = A, start_page = 1, end_page = 4\<rparr>])"
proof (intro conjI impI)
  assume "identify_form_on_page page = None"
  then show "page_step page_num page (found_forms, Some cur) = (found_forms, Some cur)"
    by (rule page_step_None)
next
  assume "identify_form_on_page p1 = Some A \<and> identify_form_on_page p2 = Some A
      \<and> identify_form_on_page p3 = None \<and> identify_form_on_page p4 = Some A"
  then show "snd (find_tax_forms_in_pdf pdf_path (Document [p1, p2, p3, p4])) =
            [\<lparr>document_type = A, start_page = 1, end_page = 4\<rparr>]"
    by (simp add: find_tax_forms_in_pdf_def finish_def page_step_None page_step_first
        page_step_same set_end_page_def)
qed

theorem unlabeled_page_keeps_open_form_witness:
  "identify_form_on_page ''Form 1040'' = Some ''1040f''
   \<and> identify_form_on_page ''Worksheet'' = None
   \<and> page_step 2 ''Worksheet'' ([], Some \<lparr>tracked_type = ''1040f'', tracked_start = 1\<rparr>)
       = ([], Some \<lparr>tracked_type = ''1040f'', tracked_start = 1\<rparr>)
   \<and> snd (find_tax_forms_in_pdf ''return.pdf''
            (Document [''Form 1040'', ''Form 1040'', ''Worksheet'', ''Form 1040'']))
       = [\<lparr>document_type = ''1040f'', start_page = 1, end_page = 4\<rparr>]"
proof -
  have a: "identify_form_on_page ''Form 1040'' = Some ''1040f''"
    by code_simp
  have n: "identify_form_on_page ''Worksheet'' = None"
    by code_simp
  from unlabeled_page_keeps_open_form[of "''Worksheet''" 2 "[]"
      "\<lparr>tracked_type = ''1040f'', tracked_start = 1\<rparr>"
      "''Form 1040''" "''1040f''" "''Form 1040''" "''Worksheet''" "''Form 1040''" "''return.pdf''"]
    a n
  show ?thesis by simp
qed



section \<open>The found forms are ordered and disjoint\<close>

lemma scan_inv_step:
  assumes inv: "scan_inv n st"
  shows "scan_inv (n + 1) (page_step n page st)"
proof (cases "identify_form_on_page page")
  case None
  from inv show ?thesis
    unfolding page_step_None[OF None] scan_inv_def by (fastforce split: option.splits)
next
  case (Some form_type)
  obtain found_forms current_form where st: "st = (found_forms, current_form)"
    by (cases st)
  show ?thesis
  proof (cases current_form)
    case None
    with inv st Some show ?thesis
      by (auto simp: page_step_first scan_inv_def)
  next
    case cur: (Some cur)
    show ?thesis
    proof (cases "form_type = tracked_type cur")
      case True
      with inv st Some cur show ?thesis
        by (auto simp: page_step_same scan_inv_def)
    next
      case False
      with inv st Some cur show ?thesis
        by (auto simp: page_step_other scan_inv_def set_end_page_def sorted_wrt_append)
    qed
  qed
qed

lemma scan_inv_scan_pages:
  "scan_inv n st \<Longrightarrow> scan_inv (n + int (length pages)) (scan_pages n pages st)"
proof (induction pages arbitrary: n st)
  case Nil
  then show ?case by simp
next
  case (Cons page pages)
  from Cons.IH[OF scan_inv_step[OF Cons.prems, of page]]
  show ?case by (simp add: algebra_simps)
qed

lemma finish_ordered:
  assumes "scan_inv (int n) st"
  shows "(\<forall>s \<in> set (finish n st). start_page s \<le> end_page s)
       \<and> sorted_wrt (\<lambda>a b. end_page a < start_page b) (finish n st)"
  using assms
  by (auto simp: scan_inv_def finish_def set_end_page_def sorted_wrt_append
      split: option.splits)

lemma found_forms_ordered:
  "(\<forall>s \<in> set (snd (find_tax_forms_in_pdf pdf_path opened)). start_page s \<le> end_page s)
   \<and> sorted_wrt (\<lambda>a b. end_page a < start_page b)
       (snd (find_tax_forms_in_pdf pdf_path opened))"
proof (cases opened)
  case (OpenFailed e)
  then show ?thesis by (simp add: find_tax_forms_in_pdf_def)
next
  case (Document doc)
  have "scan_inv 0 ([], None)"
    by (simp add: scan_inv_def)
  from scan_inv_scan_pages[OF this, of doc]
  have "scan_inv (int (length doc)) (scan_pages 0 doc ([], None))"
    by simp
  from finish_ordered[OF this] show ?thesis
    using Document by (simp add: find_tax_forms_in_pdf_def)
qed

text \<open>
  Claim C5. The loop visits the pages in increasing order from page 1. Every form that
  find\_tax\_forms\_in\_pdf returns has its start page at or before its end page, the forms
  are in ascending order of start page, and no two of them share a page.
\<close>

theorem found_forms_ascending_disjoint:
  "(\<forall>s \<in> set (snd (find_tax_forms_in_pdf pdf_path opened)). start_page s \<le> end_page s)
   \<and> sorted_wrt (\<lambda>a b. start_page a < start_page b)
       (snd (find_tax_forms_in_pdf pdf_path opened))
   \<and> (\<forall>i j. i < j \<and> j < length (snd (find_tax_forms_in_pdf pdf_path opened))
        \<longrightarrow> pages_of (snd (find_tax_forms_in_pdf pdf_path opened) ! i)
              \<inter> pages_of (snd (find_tax_forms_in_pdf pdf_path opened) ! j) = {})"
proof -
  define segs where "segs = snd (find_tax_forms_in_pdf pdf_path opened)"
  have le: "\<forall>s \<in> set segs. start_page s \<le> end_page s"
    and gap: "sorted_wrt (\<lambda>a b. end_page a < start_page b) segs"
    using found_forms_ordered[of pdf_path opened] by (simp_all add: segs_def)
  have nth: "end_page (segs ! i) < start_page (segs ! j)" if "i < j" "j < length segs" for i j
    using gap that by (simp add: sorted_wrt_iff_nth_less)
  have asc: "sorted_wrt (\<lambda>a b. start_page a < start_page b) segs"
    unfolding sorted_wrt_iff_nth_less
  proof (intro allI impI)
    fix i j assume ij: "i < j" "j < length segs"
    then have "start_page (segs ! i) \<le> end_page (segs ! i)"
      using le by simp
    with nth[OF ij] show "start_page (segs ! i) < start_page (segs ! j)"
      by simp
  qed
  have dis: "pages_of (segs ! i) \<inter> pages_of (segs ! j) = {}" if "i < j \<and> j < length segs" for i j
    using nth[of i j] that by (auto simp: pages_of_def)
  from le asc dis show ?thesis
    unfolding segs_def by blast
qed

theorem found_forms_ascending_disjoint_witness:
  "snd (find_tax_forms_in_pdf ''return.pdf''
         (Document [''Form 1040'', ''Form 1040'', ''Form 8879'', ''Worksheet''])) =
     [\<lparr>document_type = ''1040f'', start_page = 1, end_page = 2\<rparr>,
      \<lparr>document_type = ''f8879'', start_page = 3, end_page = 4\<rparr>]
   \<and> pages_of \<lparr>document_type = ''1040f'', start_page = 1, end_page = 2\<rparr>
       \<inter> pages_of \<lparr>document_type = ''f8879'', start_page = 3, end_page = 4\<rparr> = {}"
proof -
  have segs: "snd (find_tax_forms_in_pdf ''return.pdf''
         (Document [''Form 1040'', ''Form 1040'', ''Form 8879'', ''Worksheet''])) =
     [\<lparr>document_type = ''1040f'', start_page = 1, end_page = 2\<rparr>,
      \<lparr>document_type = ''f8879'', start_page = 3, end_page = 4\<rparr>]"
    by code_simp
  have "(0::nat) < 1 \<and> 1 < length (snd (find_tax_forms_in_pdf ''return.pdf''
         (Document [''Form 1040'', ''Form 1040'', ''Form 8879'', ''Worksheet''])))"
    unfolding segs by simp
  with found_forms_ascending_disjoint[of "''return.pdf''"
      "Document [''Form 1040'', ''Form 1040'', ''Form 8879'', ''Worksheet'']"]
  have "pages_of (snd (find_tax_forms_in_pdf ''return.pdf''
         (Document [''Form 1040'', ''Form 1040'', ''Form 8879'', ''Worksheet''])) ! 0)
       \<inter> pages_of (snd (find_tax_forms_in_pdf ''return.pdf''
         (Document [''Form 1040'', ''Form 1040'', ''Form 8879'', ''Worksheet''])) ! 1) = {}"
    by blast
  with segs show ?thesis
    by simp
qed

section \<open>What main returns\<close>

text \<open>
  Claim C10. In single-document mode main prints the notice and returns None exactly when
  find\_tax\_forms\_in\_pdf gives no form; otherwise it returns the forms of a desired type,
  and this list is empty exactly when forms were found and none of them is desired. An
  unreadable document and a document without forms both give None.
\<close>

theorem main_none_iff_no_forms:
  "(snd (find_tax_forms_in_pdf pdf_path opened) = []
      \<longrightarrow> main pdf_path opened =
            (fst (find_tax_forms_in_pdf pdf_path opened) @ [NoTaxForms], None))
   \<and> (snd (find_tax_forms_in_pdf pdf_path opened) \<noteq> []
      \<longrightarrow> main pdf_path opened =
            (fst (find_tax_forms_in_pdf pdf_path opened),
             Some (filter (\<lambda>form. document_type form \<in> desired_forms)
                     (snd (find_tax_forms_in_pdf pdf_path opened)))))
   \<and> (snd (main pdf_path opened) = None
        \<longleftrightarrow> snd (find_tax_forms_in_pdf pdf_path opened) = [])
   \<and> (snd (main pdf_path opened) = Some []
        \<longleftrightarrow> snd (find_tax_forms_in_pdf pdf_path opened) \<noteq> []
            \<and> (\<forall>form \<in> set (snd (find_tax_forms_in_pdf pdf_path opened)).
                  document_type form \<notin> desired_forms))
   \<and> snd (main pdf_path (OpenFailed e)) = None
   \<and> snd (main pdf_path (Document [])) = None"
  by (auto simp: main_def find_tax_forms_in_pdf_def finish_def filter_empty_conv
      split: prod.splits fitz_document.splits)

theorem main_none_iff_no_forms_witness:
  "snd (find_tax_forms_in_pdf ''return.pdf'' (Document [''Form 8879''])) \<noteq> []
   \<and> snd (find_tax_forms_in_pdf ''return.pdf'' (Document [''Form 8879''])) =
       [\<lparr>document_type = ''f8879'', start_page = 1, end_page = 1\<rparr>]
   \<and> ''f8879'' \<notin> desired_forms
   \<and> main ''return.pdf'' (Document [''Form 8879'']) = ([], Some [])
   \<and> snd (find_tax_forms_in_pdf ''return.pdf'' (Document [''Worksheet''])) = []
   \<and> main ''return.pdf'' (Document [''Worksheet'']) = ([NoTaxForms], None)
   \<and> main ''return.pdf'' (OpenFailed ''no such file'') =
       ([CouldNotOpen ''return.pdf'' ''no such file'', NoTaxForms], None)"
proof -
  have f: "find_tax_forms_in_pdf ''return.pdf'' (Document [''Form 8879'']) =
      ([], [\<lparr>document_type = ''f8879'', start_page = 1, end_page = 1\<rparr>])"
    by code_simp
  have d: "''f8879'' \<notin> desired_forms"
    by (simp add: desired_forms_def)
  have w: "find_tax_forms_in_pdf ''return.pdf'' (Document [''Worksheet'']) = ([], [])"
    by code_simp
  have o: "find_tax_forms_in_pdf ''return.pdf'' (OpenFailed ''no such file'') =
      ([CouldNotOpen ''return.pdf'' ''no such file''], [])"
    by (simp add: find_tax_forms_in_pdf_def)
  from main_none_iff_no_forms[of "''return.pdf''" "Document [''Form 8879'']"]
    main_none_iff_no_forms[of "''return.pdf''" "Document [''Worksheet'']"]
    main_none_iff_no_forms[of "''return.pdf''" "OpenFailed ''no such file''"]
    f d w o
  show ?thesis by simp
qed

section \<open>Scoring one file\<close>

lemma canonical_sorted: "sorted (map fst (canonical form))"
  unfolding canonical_def by code_simp

lemma canonical_distinct: "distinct (map fst (canonical form))"
  by (simp add: canonical_def)

lemma canonical_mset: "mset (canonical form) = mset (segment_dict form)"
  by (simp add: canonical_def segment_dict_def)

lemma canonical_eq_iff: "canonical f = canonical g \<longleftrightarrow> f = g"
  by (cases f, cases g) (auto simp: canonical_def)

lemma inj_canonical: "inj canonical"
  by (simp add: inj_def canonical_eq_iff)

text \<open>Sorting the items by key forgets the insertion order of the dictionary.\<close>

lemma sorted_items_canonical:
  assumes "same_items d form"
  shows "sorted_items d = canonical form"
proof -
  have m: "mset (sort_key fst d) = mset (canonical form)"
    using assms by (simp add: same_items_def canonical_mset)
  then have k: "mset (map fst (sort_key fst d)) = mset (map fst (canonical form))"
    by (metis mset_map)
  have d1: "distinct (map fst (sort_key fst d))"
    using k canonical_distinct[of form] by (metis mset_eq_imp_distinct_iff)
  have s: "set (sort_key fst d) = set (canonical form)"
    using m by (rule mset_eq_setD)
  have "inj_on fst (set (sort_key fst d) \<union> set (canonical form))"
    using d1 s by (simp add: distinct_map)
  moreover have "sorted (map fst (sort_key fst d))"
    by simp
  ultimately show ?thesis
    unfolding sorted_items_def
    using d1 canonical_sorted canonical_distinct s
    by (intro map_sorted_distinct_set_unique[of fst]) auto
qed

lemma same_items_segment_dict: "same_items (segment_dict form) form"
  by (simp add: same_items_def)

lemma map_sorted_items:
  "list_all2 same_items ds forms \<Longrightarrow> map sorted_items ds = map canonical forms"
  by (induction rule: list_all2_induct) (simp_all add: sorted_items_canonical)

lemma card_canonical_image:
  "card (canonical ` A \<inter> canonical ` B) = card (A \<inter> B)"
  "card (canonical ` A - canonical ` B) = card (A - B)"
  by (simp_all add: image_Int[OF inj_canonical, symmetric]
      image_set_diff[OF inj_canonical, symmetric]
      card_image[OF inj_on_subset[OF inj_canonical]])

lemma metrics_as_sets:
  assumes "list_all2 same_items predicted P" "list_all2 same_items ground_truth T"
  shows "calculate_metrics_for_file predicted ground_truth =
           \<lparr>tp = int (card (set P \<inter> set T)), fp = int (card (set P - set T)),
            fn = int (card (set T - set P))\<rparr>"
proof -
  have p: "set (map sorted_items predicted) = canonical ` set P"
    using map_sorted_items[OF assms(1)] by simp
  have t: "set (map sorted_items ground_truth) = canonical ` set T"
    using map_sorted_items[OF assms(2)] by simp
  show ?thesis
    unfolding calculate_metrics_for_file_def Let_def p t card_canonical_image ..
qed

text \<open>
  Claim C2. For lists of dictionaries that hold the items of the forms \<open>P\<close> and \<open>T\<close> (in any
  key order), calculate\_metrics\_for\_file returns tp = |P \<inter> T|, fp = |P - T| and
  fn = |T - P|, the forms compared by equality of all three fields. Only the sets of the
  two lists count, so duplicates collapse. A predicted form equal to the true one scores
  tp = 1; one that differs from it in any field scores fp = 1 and fn = 1.
\<close>

theorem calculate_metrics_exact_sets:
  "(list_all2 same_items predicted P \<and> list_all2 same_items ground_truth T
      \<longrightarrow> calculate_metrics_for_file predicted ground_truth =
            \<lparr>tp = int (card (set P \<inter> set T)), fp = int (card (set P - set T)),
             fn = int (card (set T - set P))\<rparr>)
   \<and> (set ds = set ds' \<and> set gs = set gs'
      \<longrightarrow> calculate_metrics_for_file ds gs = calculate_metrics_for_file ds' gs')
   \<and> (same_items x p \<and> same_items y p
      \<longrightarrow> calculate_metrics_for_file [x] [y] = \<lparr>tp = 1, fp = 0, fn = 0\<rparr>)
   \<and> (same_items x p \<and> same_items y t \<and> p \<noteq> t
      \<longrightarrow> calculate_metrics_for_file [x] [y] = \<lparr>tp = 0, fp = 1, fn = 1\<rparr>)"
proof (intro conjI impI)
  assume "list_all2 same_items predicted P \<and> list_all2 same_items ground_truth T"
  then show "calculate_metrics_for_file predicted ground_truth =
            \<lparr>tp = int (card (set P \<inter> set T)), fp = int (card (set P - set T)),
             fn = int (card (set T - set P))\<rparr>"
    using metrics_as_sets by blast
next
  assume "set ds = set ds' \<and> set gs = set gs'"
  then show "calculate_metrics_for_file ds gs = calculate_metrics_for_file ds' gs'"
    by (simp add: calculate_metrics_for_file_def)
next
  assume "same_items x p \<and> same_items y p"
  then have "list_all2 same_items [x] [p]" "list_all2 same_items [y] [p]"
    by simp_all
  from metrics_as_sets[OF this]
  show "calculate_metrics_for_file [x] [y] = \<lparr>tp = 1, fp = 0, fn = 0\<rparr>"
    by simp
next
  assume h: "same_items x p \<and> same_items y t \<and> p \<noteq> t"
  then have "list_all2 same_items [x] [p]" "list_all2 same_items [y] [t]"
    by simp_all
  from metrics_as_sets[OF this] h
  show "calculate_metrics_for_file [x] [y] = \<lparr>tp = 0, fp = 1, fn = 1\<rparr>"
    by auto
qed

theorem calculate_metrics_exact_sets_witness:
  "same_items [(''start_page'', VInt 1), (''end_page'', VInt 3), (''document_type'', VStr ''X'')]
     \<lparr>document_type = ''X'', start_page = 1, end_page = 3\<rparr>
   \<and> same_items [(''end_page'', VInt 4), (''document_type'', VStr ''X''), (''start_page'', VInt 1)]
     \<lparr>document_type = ''X'', start_page = 1, end_page = 4\<rparr>
   \<and> calculate_metrics_for_file
       [segment_dict \<lparr>document_type = ''X'', start_page = 1, end_page = 3\<rparr>]
       [[(''start_page'', VInt 1), (''end_page'', VInt 3), (''document_type'', VStr ''X'')]]
       = \<lparr>tp = 1, fp = 0, fn = 0\<rparr>
   \<and> calculate_metrics_for_file
       [segment_dict \<lparr>document_type = ''X'', start_page = 1, end_page = 3\<rparr>]
       [[(''end_page'', VInt 4), (''document_type'', VStr ''X''), (''start_page'', VInt 1)]]
       = \<lparr>tp = 0, fp = 1, fn = 1\<rparr>
   \<and> calculate_metrics_for_file
       [segment_dict \<lparr>document_type = ''X'', start_page = 1, end_page = 3\<rparr>,
        segment_dict \<lparr>document_type = ''X'', start_page = 1, end_page = 3\<rparr>]
       [[(''end_page'', VInt 4), (''document_type'', VStr ''X''), (''start_page'', VInt 1)]]
       = \<lparr>tp = 0, fp = 1, fn = 1\<rparr>"
proof -
  let ?p = "\<lparr>document_type = ''X'', start_page = 1, end_page = 3\<rparr>"
  let ?t = "\<lparr>document_type = ''X'', start_page = 1, end_page = 4\<rparr>"
  let ?y = "[(''start_page'', VInt 1), (''end_page'', VInt 3), (''document_type'', VStr ''X'')]"
  let ?z = "[(''end_page'', VInt 4), (''document_type'', VStr ''X''), (''start_page'', VInt 1)]"
  have x: "same_items (segment_dict ?p) ?p"
    by (rule same_items_segment_dict)
  have y: "same_items ?y ?p"
    by (simp add: same_items_def segment_dict_def)
  have z: "same_items ?z ?t"
    by (simp add: same_items_def segment_dict_def)
  have ne: "?p \<noteq> ?t"
    by simp
  have s: "set [segment_dict ?p, segment_dict ?p] = set [segment_dict ?p] \<and> set [?z] = set [?z]"
    by simp
  have r1: "calculate_metrics_for_file [segment_dict ?p] [?y] = \<lparr>tp = 1, fp = 0, fn = 0\<rparr>"
    using calculate_metrics_exact_sets[of "[]" "[]" "[]" "[]" "[]" "[]" "[]" "[]"
        "segment_dict ?p" ?p ?y ?t] x y
    by blast
  have r2: "calculate_metrics_for_file [segment_dict ?p] [?z] = \<lparr>tp = 0, fp = 1, fn = 1\<rparr>"
    using calculate_metrics_exact_sets[of "[]" "[]" "[]" "[]" "[]" "[]" "[]" "[]"
        "segment_dict ?p" ?p ?z ?t] x z ne
    by blast
  have r3: "calculate_metrics_for_file [segment_dict ?p, segment_dict ?p] [?z] =
      calculate_metrics_for_file [segment_dict ?p] [?z]"
    using calculate_metrics_exact_sets[of "[]" "[]" "[]" "[]"
        "[segment_dict ?p, segment_dict ?p]" "[segment_dict ?p]" "[?z]" "[?z]"
        "segment_dict ?p" ?p ?z ?t] s
    by blast
  from y z r1 r2 r3 show ?thesis
    by simp
qed

section \<open>Aggregation over the corpus\<close>

lemma file_step_totals:
  "total_tp (file_step pdf_dir file st) = total_tp st + contributed tp pdf_dir file"
  "total_fp (file_step pdf_dir file st) = total_fp st + contributed fp pdf_dir file"
  "total_fn (file_step pdf_dir file st) = total_fn st + contributed fn pdf_dir file"
  by (simp_all add: file_step_def contributed_def document_metrics_def score_file_def Let_def
      split: option.splits prod.splits)

lemma evaluate_files_totals:
  "total_tp (evaluate_files pdf_dir files st) = total_tp st + corpus_sum tp pdf_dir files
   \<and> total_fp (evaluate_files pdf_dir files st) = total_fp st + corpus_sum fp pdf_dir files
   \<and> total_fn (evaluate_files pdf_dir files st) = total_fn st + corpus_sum fn pdf_dir files"
  by (induction files arbitrary: st) (simp_all add: corpus_sum_def file_step_totals)

lemma contributed_nonneg:
  "0 \<le> contributed tp pdf_dir file" "0 \<le> contributed fp pdf_dir file"
  "0 \<le> contributed fn pdf_dir file"
  by (simp_all add: contributed_def document_metrics_def score_file_def
      calculate_metrics_for_file_def Let_def split: option.splits)

lemma corpus_sum_nonneg:
  "0 \<le> corpus_sum tp pdf_dir files" "0 \<le> corpus_sum fp pdf_dir files"
  "0 \<le> corpus_sum fn pdf_dir files"
  unfolding corpus_sum_def by (auto intro!: sum_list_nonneg simp: contributed_nonneg)

text \<open>On totals that are not negative the guarded divisions never raise, and the guards
  \<open>> 0\<close> of the code are the guards \<open>\<noteq> 0\<close> of the specification.\<close>

lemma overall_of_totals_micro_average:
  assumes "0 \<le> t_p" "0 \<le> f_p" "0 \<le> f_n"
  shows "overall_of_totals t_p f_p f_n = Inr (micro_average t_p f_p f_n)"
proof -
  define p where "p = quotient (of_int t_p) (of_int (t_p + f_p))"
  define r where "r = quotient (of_int t_p) (of_int (t_p + f_n))"
  have p: "(if t_p + f_p > 0 then truediv (of_int t_p) (of_int (t_p + f_p)) else Inr 0) = Inr p"
    using assms by (auto simp: truediv_def quotient_def p_def)
  have r: "(if t_p + f_n > 0 then truediv (of_int t_p) (of_int (t_p + f_n)) else Inr 0) = Inr r"
    using assms by (auto simp: truediv_def quotient_def r_def)
  have "0 \<le> p" "0 \<le> r"
    using assms by (simp_all add: p_def r_def quotient_def)
  then have f: "(if p + r > 0 then truediv (2 * (p * r)) (p + r) else Inr 0)
                  = Inr (quotient (2 * p * r) (p + r))"
    by (auto simp: truediv_def quotient_def mult.assoc)
  have "overall_of_totals t_p f_p f_n =
      Inr \<lparr>total_true_positives = t_p, total_false_positives = f_p,
           total_false_negatives = f_n, precision = py_round p 4, recall = py_round r 4,
           f1_score = py_round (quotient (2 * p * r) (p + r)) 4\<rparr>"
    by (simp only: overall_of_totals_def p r f sum.case)
  then show ?thesis
    by (simp only: micro_average_def Let_def p_def r_def)
qed

lemma corpus_overall_micro_average:
  assumes "pdf_files \<noteq> []"
  shows "corpus_overall pdf_dir pdf_files =
           Inr (Some (micro_average (corpus_sum tp pdf_dir pdf_files)
                        (corpus_sum fp pdf_dir pdf_files) (corpus_sum fn pdf_dir pdf_files)))"
  using assms
  by (simp add: corpus_overall_def evaluate_parser_accuracy_def Let_def evaluate_files_totals
      overall_of_totals_micro_average corpus_sum_nonneg)

lemma corpus_overall_empty: "corpus_overall pdf_dir [] = Inr None"
  by (simp add: corpus_overall_def evaluate_parser_accuracy_def)







lemma corpus_sum_mset:
  "mset files = mset files' \<Longrightarrow>
     corpus_sum field pdf_dir files = corpus_sum field pdf_dir files'"
  unfolding corpus_sum_def by (metis mset_map sum_mset_sum_list)

lemma corpus_overall_mset:
  assumes "mset files = mset files'"
  shows "corpus_overall pdf_dir files = corpus_overall pdf_dir files'"
proof (cases "files = []")
  case True
  with assms show ?thesis by simp
next
  case False
  with assms have "files' \<noteq> []" by auto
  with False show ?thesis
    by (simp add: corpus_overall_micro_average corpus_sum_mset[OF assms])
qed

text \<open>
  Claim C8. The aggregation is a summation that does not depend on the order of the
  documents: two listings of the same files, in any two orders, give the same totals of
  tp, fp and fn from any starting totals, and the same overall metrics.
\<close>

theorem corpus_totals_order_independent:
  "mset pdf_files = mset pdf_files'
   \<longrightarrow> total_tp (evaluate_files pdf_dir pdf_files st)
         = total_tp (evaluate_files pdf_dir pdf_files' st)
     \<and> total_fp (evaluate_files pdf_dir pdf_files st)
         = total_fp (evaluate_files pdf_dir pdf_files' st)
     \<and> total_fn (evaluate_files pdf_dir pdf_files st)
         = total_fn (evaluate_files pdf_dir pdf_files' st)
     \<and> corpus_overall pdf_dir pdf_files = corpus_overall pdf_dir pdf_files'"
proof
  assume m: "mset pdf_files = mset pdf_files'"
  show "total_tp (evaluate_files pdf_dir pdf_files st)
         = total_tp (evaluate_files pdf_dir pdf_files' st)
     \<and> total_fp (evaluate_files pdf_dir pdf_files st)
         = total_fp (evaluate_files pdf_dir pdf_files' st)
     \<and> total_fn (evaluate_files pdf_dir pdf_files st)
         = total_fn (evaluate_files pdf_dir pdf_files' st)
     \<and> corpus_overall pdf_dir pdf_files = corpus_overall pdf_dir pdf_files'"
    unfolding evaluate_files_totals[THEN conjunct1]
      evaluate_files_totals[THEN conjunct2, THEN conjunct1]
      evaluate_files_totals[THEN conjunct2, THEN conjunct2]
      corpus_sum_mset[OF m] corpus_overall_mset[OF m]
    by simp
qed

theorem corpus_totals_order_independent_witness:
  "mset [\<lparr>pdf_filename = ''b.pdf'', pdf = Document [''Form 1040''],
           ground_truth_json =
             Some [segment_dict \<lparr>document_type = ''1040f'', start_page = 1, end_page = 1\<rparr>]\<rparr>,
          \<lparr>pdf_filename = ''d.pdf'', pdf = Document [''Form 1040'', ''Form 1040''],
           ground_truth_json =
             Some [segment_dict \<lparr>document_type = ''f1040sc'', start_page = 1, end_page = 2\<rparr>]\<rparr>]
   = mset [\<lparr>pdf_filename = ''d.pdf'', pdf = Document [''Form 1040'', ''Form 1040''],
           ground_truth_json =
             Some [segment_dict \<lparr>document_type = ''f1040sc'', start_page = 1, end_page = 2\<rparr>]\<rparr>,
          \<lparr>pdf_filename = ''b.pdf'', pdf = Document [''Form 1040''],
           ground_truth_json =
             Some [segment_dict \<lparr>document_type = ''1040f'', start_page = 1, end_page = 1\<rparr>]\<rparr>]
   \<and> corpus_overall ''pdfs''
        [\<lparr>pdf_filename = ''b.pdf'', pdf = Document [''Form 1040''],
           ground_truth_json =
             Some [segment_dict \<lparr>document_type = ''1040f'', start_page = 1, end_page = 1\<rparr>]\<rparr>,
          \<lparr>pdf_filename = ''d.pdf'', pdf = Document [''Form 1040'', ''Form 1040''],
           ground_truth_json =
             Some [segment_dict \<lparr>document_type = ''f1040sc'', start_page = 1, end_page = 2\<rparr>]\<rparr>]
     = Inr (Some \<lparr>total_true_positives = 1, total_false_positives = 1,
                  total_false_negatives = 1, precision = 1 / 2, recall = 1 / 2,
                  f1_score = 1 / 2\<rparr>)
   \<and> corpus_overall ''pdfs''
        [\<lparr>pdf_filename = ''d.pdf'', pdf = Document [''Form 1040'', ''Form 1040''],
           ground_truth_json =
             Some [segment_dict \<lparr>document_type = ''f1040sc'', start_page = 1, end_page = 2\<rparr>]\<rparr>,
          \<lparr>pdf_filename = ''b.pdf'', pdf = Document [''Form 1040''],
           ground_truth_json =
             Some [segment_dict \<lparr>document_type = ''1040f'', start_page = 1, end_page = 1\<rparr>]\<rparr>]
     = Inr (Some \<lparr>total_true_positives = 1, total_false_positives = 1,
                  total_false_negatives = 1, precision = 1 / 2, recall = 1 / 2,
                  f1_score = 1 / 2\<rparr>)"
proof -
  let ?b = "\<lparr>pdf_filename = ''b.pdf'', pdf = Document [''Form 1040''],
           ground_truth_json =
             Some [segment_dict \<lparr>document_type = ''1040f'', start_page = 1, end_page = 1\<rparr>]\<rparr>"
  let ?d = "\<lparr>pdf_filename = ''d.pdf'', pdf = Document [''Form 1040'', ''Form 1040''],
           ground_truth_json =
             Some [segment_dict \<lparr>document_type = ''f1040sc'', start_page = 1, end_page = 2\<rparr>]\<rparr>"
  have m: "mset [?b, ?d] = mset [?d, ?b]"
    by simp
  have v: "corpus_overall ''pdfs'' [?b, ?d] =
      Inr (Some \<lparr>total_true_positives = 1, total_false_positives = 1,
                  total_false_negatives = 1, precision = 1 / 2, recall = 1 / 2,
                  f1_score = 1 / 2\<rparr>)"
    by code_simp
  from corpus_totals_order_independent[of "[?b, ?d]" "[?d, ?b]" "''pdfs''"] m
  have "corpus_overall ''pdfs'' [?b, ?d] = corpus_overall ''pdfs'' [?d, ?b]"
    by blast
  with m v show ?thesis
    by simp
qed

section \<open>Unreadable documents in the corpus\<close>

lemma unreadable_step:
  assumes "pdf file = OpenFailed e" "ground_truth_json file = Some gt"
  shows "printed (file_step pdf_dir file st) =
           printed st @ [CouldNotOpen (path_join pdf_dir (pdf_filename file)) e]"
    and "total_tp (file_step pdf_dir file st) = total_tp st"
    and "total_fp (file_step pdf_dir file st) = total_fp st"
    and "total_fn (file_step pdf_dir file st) =
           total_fn st + int (card (set (map sorted_items gt)))"
  using assms
  by (simp_all add: file_step_def find_tax_forms_in_pdf_def calculate_metrics_for_file_def
      Let_def)

lemma skipped_step:
  assumes "ground_truth_json file = None"
  shows "total_tp (file_step pdf_dir file st) = total_tp st"
    and "total_fp (file_step pdf_dir file st) = total_fp st"
    and "total_fn (file_step pdf_dir file st) = total_fn st"
  using assms by (simp_all add: file_step_def)

text \<open>
  Claim C9, as stated, fails. A corpus of two files, each with the ground truth of one
  Form 1040: the first cannot be opened, the second is parsed as its ground truth says.
  The unreadable file adds 1 to the false negatives and the recall falls from 1 to 1/2;
  without that file the totals are tp = 1, fp = 0, fn = 0.
\<close>

theorem unreadable_document_counts_false_negatives:
  "corpus_overall ''pdfs''
     [\<lparr>pdf_filename = ''a.pdf'', pdf = OpenFailed ''broken'',
       ground_truth_json =
         Some [segment_dict \<lparr>document_type = ''1040f'', start_page = 1, end_page = 2\<rparr>]\<rparr>,
      \<lparr>pdf_filename = ''b.pdf'', pdf = Document [''Form 1040''],
       ground_truth_json =
         Some [segment_dict \<lparr>document_type = ''1040f'', start_page = 1, end_page = 1\<rparr>]\<rparr>]
   = Inr (Some \<lparr>total_true_positives = 1, total_false_positives = 0,
                total_false_negatives = 1, precision = 1, recall = 1 / 2,
                f1_score = 6667 / 10000\<rparr>)
   \<and> corpus_overall ''pdfs''
     [\<lparr>pdf_filename = ''b.pdf'', pdf = Document [''Form 1040''],
       ground_truth_json =
         Some [segment_dict \<lparr>document_type = ''1040f'', start_page = 1, end_page = 1\<rparr>]\<rparr>]
   = Inr (Some \<lparr>total_true_positives = 1, total_false_positives = 0,
                total_false_negatives = 0, precision = 1, recall = 1,
                f1_score = 1\<rparr>)"
  by code_simp

text \<open>
  Claim C9, amended. When the document cannot be opened, find\_tax\_forms\_in\_pdf prints a
  diagnostic with the path and the reason and returns the empty list instead of raising.
  In corpus mode such a document is scored like a document without predictions: the
  diagnostic is printed, tp and fp stay as they are, and fn grows by the number of
  distinct ground-truth records of the document. A document without a ground-truth file
  is skipped and changes none of the three totals.
\<close>

theorem unreadable_document_scored_without_predictions:
  "find_tax_forms_in_pdf pdf_path (OpenFailed e) = ([CouldNotOpen pdf_path e], [])
   \<and> (pdf file = OpenFailed e \<and> ground_truth_json file = Some gt
      \<longrightarrow> printed (file_step pdf_dir file st) =
            printed st @ [CouldNotOpen (path_join pdf_dir (pdf_filename file)) e]
        \<and> total_tp (file_step pdf_dir file st) = total_tp st
        \<and> total_fp (file_step pdf_dir file st) = total_fp st
        \<and> total_fn (file_step pdf_dir file st) =
            total_fn st + int (card (set (map sorted_items gt))))
   \<and> (ground_truth_json file' = None
      \<longrightarrow> total_tp (file_step pdf_dir file' st) = total_tp st
        \<and> total_fp (file_step pdf_dir file' st) = total_fp st
        \<and> total_fn (file_step pdf_dir file' st) = total_fn st)"
  by (simp add: find_tax_forms_in_pdf_def unreadable_step skipped_step)

theorem unreadable_document_scored_without_predictions_witness:
  "pdf \<lparr>pdf_filename = ''a.pdf'', pdf = OpenFailed ''broken'',
        ground_truth_json =
          Some [segment_dict \<lparr>document_type = ''1040f'', start_page = 1, end_page = 2\<rparr>]\<rparr>
     = OpenFailed ''broken''
   \<and> printed (file_step ''pdfs''
        \<lparr>pdf_filename = ''a.pdf'', pdf = OpenFailed ''broken'',
          ground_truth_json =
            Some [segment_dict \<lparr>document_type = ''1040f'', start_page = 1, end_page = 2\<rparr>]\<rparr>
        \<lparr>total_tp = 3, total_fp = 1, total_fn = 0, per_file_results = Map.empty,
          printed = []\<rparr>)
     = [CouldNotOpen ''pdfs/a.pdf'' ''broken'']
   \<and> total_tp (file_step ''pdfs''
        \<lparr>pdf_filename = ''a.pdf'', pdf = OpenFailed ''broken'',
          ground_truth_json =
            Some [segment_dict \<lparr>document_type = ''1040f'', start_page = 1, end_page = 2\<rparr>]\<rparr>
        \<lparr>total_tp = 3, total_fp = 1, total_fn = 0, per_file_results = Map.empty,
          printed = []\<rparr>) = 3
   \<and> total_fn (file_step ''pdfs''
        \<lparr>pdf_filename = ''a.pdf'', pdf = OpenFailed ''broken'',
          ground_truth_json =
            Some [segment_dict \<lparr>document_type = ''1040f'', start_page = 1, end_page = 2\<rparr>]\<rparr>
        \<lparr>total_tp = 3, total_fp = 1, total_fn = 0, per_file_results = Map.empty,
          printed = []\<rparr>) = 1
   \<and> ground_truth_json \<lparr>pdf_filename = ''c.pdf'', pdf = OpenFailed ''broken'',
        ground_truth_json = None\<rparr> = None
   \<and> total_fn (file_step ''pdfs''
        \<lparr>pdf_filename = ''c.pdf'', pdf = OpenFailed ''broken'', ground_truth_json = None\<rparr>
        \<lparr>total_tp = 3, total_fp = 1, total_fn = 0, per_file_results = Map.empty,
          printed = []\<rparr>) = 0"
proof -
  let ?a = "\<lparr>pdf_filename = ''a.pdf'', pdf = OpenFailed ''broken'',
          ground_truth_json =
            Some [segment_dict \<lparr>document_type = ''1040f'', start_page = 1, end_page = 2\<rparr>]\<rparr>"
  let ?c = "\<lparr>pdf_filename = ''c.pdf'', pdf = OpenFailed ''broken'', ground_truth_json = None\<rparr>"
  let ?st = "\<lparr>total_tp = 3, total_fp = 1, total_fn = 0, per_file_results = Map.empty,
          printed = []\<rparr>"
  have p: "path_join ''pdfs'' ''a.pdf'' = ''pdfs/a.pdf''"
    by (simp add: path_join_def)
  from unreadable_document_scored_without_predictions[of "''pdfs/a.pdf''" "''broken''" ?a
      "[segment_dict \<lparr>document_type = ''1040f'', start_page = 1, end_page = 2\<rparr>]"
      "''pdfs''" ?st ?c] p
  show ?thesis
    by simp
qed

section \<open>The allow-list filters the predictions only\<close>

lemma list_all2_segment_dict: "list_all2 same_items (map segment_dict forms) forms"
  by (induction forms) (simp_all add: same_items_segment_dict)

lemma score_file_as_sets:
  assumes "list_all2 same_items gt T"
  shows "score_file predicted gt =
     \<lparr>tp = int (card ({s \<in> set predicted. document_type s \<in> desired_forms} \<inter> set T)),
      fp = int (card ({s \<in> set predicted. document_type s \<in> desired_forms} - set T)),
      fn = int (card (set T - {s \<in> set predicted. document_type s \<in> desired_forms}))\<rparr>"
  unfolding score_file_def
  using metrics_as_sets[OF list_all2_segment_dict assms] by simp

lemma score_file_undesired_truth:
  assumes "list_all2 same_items gt T" "same_items g t" "document_type t \<notin> desired_forms"
    "t \<notin> set T"
  shows "score_file predicted (g # gt) =
     \<lparr>tp = tp (score_file predicted gt), fp = fp (score_file predicted gt),
      fn = fn (score_file predicted gt) + 1\<rparr>"
proof -
  let ?D = "{s \<in> set predicted. document_type s \<in> desired_forms}"
  have t: "t \<notin> ?D"
    using assms(3) by simp
  have a: "list_all2 same_items (g # gt) (t # T)"
    using assms by simp
  have i: "?D \<inter> set (t # T) = ?D \<inter> set T"
    using t by auto
  have d: "?D - set (t # T) = ?D - set T"
    using t by auto
  have e: "set (t # T) - ?D = insert t (set T - ?D)"
    using t by auto
  have c: "card (insert t (set T - ?D)) = card (set T - ?D) + 1"
    using assms(4) by simp
  show ?thesis
    unfolding score_file_as_sets[OF a] score_file_as_sets[OF assms(1)] i d e c by simp
qed

lemma score_file_undesired_predicted:
  "document_type s \<notin> desired_forms \<Longrightarrow>
     score_file (xs @ s # ys) gt = score_file (xs @ ys) gt"
  by (simp add: score_file_def)

lemma file_step_per_file:
  "ground_truth_json file = Some gt \<Longrightarrow>
   per_file_results (file_step pdf_dir file st) (pdf_filename file) =
     Some (score_file
             (snd (find_tax_forms_in_pdf (path_join pdf_dir (pdf_filename file)) (pdf file)))
             gt)"
  by (simp add: file_step_def score_file_def Let_def split: prod.splits)

text \<open>
  Claim C6, as stated, fails for the ground truth. Form 8879 is not a desired type. A
  document of two pages of Form 8879 whose ground truth holds that very form from page 1
  to page 2: the prediction is filtered away, the ground-truth record is not, and it
  counts as a false negative. With an empty ground truth the same document scores 0.
\<close>

theorem undesired_ground_truth_is_scored:
  "''f8879'' \<notin> desired_forms
   \<and> corpus_overall ''pdfs''
       [\<lparr>pdf_filename = ''c.pdf'', pdf = Document [''Form 8879'', ''Form 8879''],
         ground_truth_json =
           Some [segment_dict \<lparr>document_type = ''f8879'', start_page = 1, end_page = 2\<rparr>]\<rparr>]
     = Inr (Some \<lparr>total_true_positives = 0, total_false_positives = 0,
                  total_false_negatives = 1, precision = 0, recall = 0, f1_score = 0\<rparr>)
   \<and> corpus_overall ''pdfs''
       [\<lparr>pdf_filename = ''c.pdf'', pdf = Document [''Form 8879'', ''Form 8879''],
         ground_truth_json = Some []\<rparr>]
     = Inr (Some \<lparr>total_true_positives = 0, total_false_positives = 0,
                  total_false_negatives = 0, precision = 0, recall = 0, f1_score = 0\<rparr>)"
  by code_simp

text \<open>
  Claim C6, amended. In corpus evaluation the metrics of a file are those of the predicted
  forms of a desired type against the whole ground truth. A predicted form whose type is
  outside the allow-list is removed before scoring and contributes nothing to tp, fp or
  fn. The ground truth is not filtered: a ground-truth record whose type is outside the
  allow-list, not already among the records, leaves tp and fp as they are and adds 1 to
  fn.
\<close>

theorem only_predicted_forms_are_filtered:
  "(ground_truth_json file = Some gt
      \<longrightarrow> per_file_results (file_step pdf_dir file st) (pdf_filename file) =
            Some (score_file
                    (snd (find_tax_forms_in_pdf
                            (path_join pdf_dir (pdf_filename file)) (pdf file)))
                    gt))
   \<and> (document_type s \<notin> desired_forms
      \<longrightarrow> score_file (xs @ s # ys) gt' = score_file (xs @ ys) gt')
   \<and> (list_all2 same_items truth T
      \<longrightarrow> score_file predicted truth =
            \<lparr>tp = int (card ({s \<in> set predicted. document_type s \<in> desired_forms}
                              \<inter> set T)),
             fp = int (card ({s \<in> set predicted. document_type s \<in> desired_forms}
                              - set T)),
             fn = int (card (set T
                              - {s \<in> set predicted. document_type s \<in> desired_forms}))\<rparr>)
   \<and> (list_all2 same_items truth T \<and> same_items g t
        \<and> document_type t \<notin> desired_forms \<and> t \<notin> set T
      \<longrightarrow> score_file predicted (g # truth) =
            \<lparr>tp = tp (score_file predicted truth), fp = fp (score_file predicted truth),
             fn = fn (score_file predicted truth) + 1\<rparr>)"
proof (intro conjI impI)
  assume "ground_truth_json file = Some gt"
  then show "per_file_results (file_step pdf_dir file st) (pdf_filename file) =
            Some (score_file
                    (snd (find_tax_forms_in_pdf
                            (path_join pdf_dir (pdf_filename file)) (pdf file)))
                    gt)"
    by (rule file_step_per_file)
next
  assume "document_type s \<notin> desired_forms"
  then show "score_file (xs @ s # ys) gt' = score_file (xs @ ys) gt'"
    by (rule score_file_undesired_predicted)
next
  assume "list_all2 same_items truth T"
  then show "score_file predicted truth =
            \<lparr>tp = int (card ({s \<in> set predicted. document_type s \<in> desired_forms}
                              \<inter> set T)),
             fp = int (card ({s \<in> set predicted. document_type s \<in> desired_forms}
                              - set T)),
             fn = int (card (set T
                              - {s \<in> set predicted. document_type s \<in> desired_forms}))\<rparr>"
    by (rule score_file_as_sets)
next
  assume "list_all2 same_items truth T \<and> same_items g t
        \<and> document_type t \<notin> desired_forms \<and> t \<notin> set T"
  then show "score_file predicted (g # truth) =
            \<lparr>tp = tp (score_file predicted truth), fp = fp (score_file predicted truth),
             fn = fn (score_file predicted truth) + 1\<rparr>"
    using score_file_undesired_truth by blast
qed

theorem only_predicted_forms_are_filtered_witness:
  "ground_truth_json
     \<lparr>pdf_filename = ''c.pdf'', pdf = Document [''Form 8879'', ''Form 8879''],
       ground_truth_json =
         Some [segment_dict \<lparr>document_type = ''f8879'', start_page = 1, end_page = 2\<rparr>]\<rparr>
     = Some [segment_dict \<lparr>document_type = ''f8879'', start_page = 1, end_page = 2\<rparr>]
   \<and> document_type \<lparr>document_type = ''f8879'', start_page = 1, end_page = 2\<rparr>
       \<notin> desired_forms
   \<and> list_all2 same_items [] []
   \<and> same_items (segment_dict \<lparr>document_type = ''f8879'', start_page = 1, end_page = 2\<rparr>)
       \<lparr>document_type = ''f8879'', start_page = 1, end_page = 2\<rparr>
   \<and> \<lparr>document_type = ''f8879'', start_page = 1, end_page = 2\<rparr> \<notin> set []
   \<and> per_file_results
       (file_step ''pdfs''
          \<lparr>pdf_filename = ''c.pdf'', pdf = Document [''Form 8879'', ''Form 8879''],
            ground_truth_json =
              Some [segment_dict \<lparr>document_type = ''f8879'', start_page = 1, end_page = 2\<rparr>]\<rparr>
          \<lparr>total_tp = 0, total_fp = 0, total_fn = 0, per_file_results = Map.empty,
            printed = []\<rparr>)
       ''c.pdf''
     = Some \<lparr>tp = 0, fp = 0, fn = 1\<rparr>
   \<and> score_file [\<lparr>document_type = ''f8879'', start_page = 1, end_page = 2\<rparr>] []
     = \<lparr>tp = 0, fp = 0, fn = 0\<rparr>
   \<and> score_file [\<lparr>document_type = ''f8879'', start_page = 1, end_page = 2\<rparr>]
       [segment_dict \<lparr>document_type = ''f8879'', start_page = 1, end_page = 2\<rparr>]
     = \<lparr>tp = 0, fp = 0, fn = 1\<rparr>"
proof -
  let ?t = "\<lparr>document_type = ''f8879'', start_page = 1, end_page = 2\<rparr>"
  let ?c = "\<lparr>pdf_filename = ''c.pdf'', pdf = Document [''Form 8879'', ''Form 8879''],
            ground_truth_json = Some [segment_dict ?t]\<rparr>"
  let ?st = "\<lparr>total_tp = 0, total_fp = 0, total_fn = 0, per_file_results = Map.empty,
            printed = []\<rparr>"
  have u: "document_type ?t \<notin> desired_forms"
    by (simp add: desired_forms_def)
  have i: "same_items (segment_dict ?t) ?t"
    by (simp add: same_items_def)
  have f: "snd (find_tax_forms_in_pdf (path_join ''pdfs'' ''c.pdf'')
                  (Document [''Form 8879'', ''Form 8879''])) = [?t]"
    by code_simp
  note w = only_predicted_forms_are_filtered[of ?c "[segment_dict ?t]" "''pdfs''" ?st
      ?t "[]" "[]" "[]" "[]" "[]" "[?t]" "segment_dict ?t" ?t]
  from w u have e: "score_file [?t] [] = score_file [] []"
    by simp
  have z: "score_file [] [] = \<lparr>tp = 0, fp = 0, fn = 0\<rparr>"
    by (simp add: score_file_def calculate_metrics_for_file_def)
  from w u i e z have g: "score_file [?t] [segment_dict ?t] = \<lparr>tp = 0, fp = 0, fn = 1\<rparr>"
    by simp
  from w f g have "per_file_results (file_step ''pdfs'' ?c ?st) ''c.pdf''
      = Some \<lparr>tp = 0, fp = 0, fn = 1\<rparr>"
    by simp
  with u i e z g show ?thesis
    by simp
qed

end
